theory Spec2Isabelle
  imports Complex_Main "HOL-Library.Sublist"
begin

section \<open>Merkle commitment engine\<close>

text \<open>
  The class \<open>MerkleTree\<close> hashes two 32-byte values with Keccak-256 over their ABI
  encoding. The hash itself belongs to the \<open>ethers\<close> library, so every function below
  takes it as the parameter \<open>hf\<close>. The library call raises when an argument is not a
  32-byte hex string; that is the result \<open>Inl e\<close>. Every \<open>throw\<close> of the class is a
  value of \<open>error\<close> as well.
\<close>

datatype error =
    EmptyLeaves        \<comment> \<open>Cannot generate root from empty leaves array\<close>
  | IndexOutOfBounds   \<comment> \<open>Leaf index out of bounds\<close>
  | HashError          \<comment> \<open>the ABI coder rejects a value\<close>

type_synonym 'h hashFunction = "'h \<Rightarrow> 'h \<Rightarrow> error + 'h"

text \<open>A hash that never raises, as Keccak-256 is on well-formed 32-byte values.\<close>

definition pureHash :: "('h \<Rightarrow> 'h \<Rightarrow> 'h) \<Rightarrow> 'h hashFunction" where
  "pureHash H left right = Inr (H left right)"

text \<open>
  A hash without collisions, for evaluating the engine at concrete leaves: the free
  algebra over numbered atoms, where the hash of two values is their pair.
\<close>

datatype idealHash = Atom nat | Pair idealHash idealHash

text \<open>\<open>padLeaves\<close>: an odd-length array gets its last element once more.\<close>

definition padLeaves :: "'h list \<Rightarrow> 'h list" where
  "padLeaves leaves =
     (if length leaves mod 2 = 0 then leaves
      else leaves @ [leaves ! (length leaves - 1)])"

text \<open>
  The inner \<open>for\<close> loop of \<open>buildTree\<close>: adjacent pairs are hashed, and a last element
  without a partner is hashed with itself.
\<close>

fun hashLevel :: "'h hashFunction \<Rightarrow> 'h list \<Rightarrow> error + 'h list" where
  "hashLevel hf [] = Inr []"
| "hashLevel hf [x] =
     (case hf x x of Inl e \<Rightarrow> Inl e | Inr h \<Rightarrow> Inr [h])"
| "hashLevel hf (x # y # rest) =
     (case hf x y of
        Inl e \<Rightarrow> Inl e
      | Inr h \<Rightarrow>
          (case hashLevel hf rest of Inl e \<Rightarrow> Inl e | Inr hs \<Rightarrow> Inr (h # hs)))"

lemma hashLevel_length:
  "hashLevel hf xs = Inr ys \<Longrightarrow> length ys = (length xs + 1) div 2"
  by (induction hf xs arbitrary: ys rule: hashLevel.induct)
     (auto split: sum.splits)

text \<open>
  The \<open>while\<close> loop of \<open>buildTree\<close>: the levels pushed after the leaves, until a
  level has at most one element.
\<close>

function buildLevels :: "'h hashFunction \<Rightarrow> 'h list \<Rightarrow> error + 'h list list" where
  "buildLevels hf currentLevel =
     (if length currentLevel > 1 then
        (case hashLevel hf currentLevel of
           Inl e \<Rightarrow> Inl e
         | Inr nextLevel \<Rightarrow>
             (case buildLevels hf nextLevel of
                Inl e \<Rightarrow> Inl e
              | Inr tree \<Rightarrow> Inr (nextLevel # tree)))
      else Inr [])"
  by pat_completeness auto
termination
proof (relation "measure (\<lambda>(hf, currentLevel). length currentLevel)")
  show "wf (measure (\<lambda>(hf :: 'h hashFunction, currentLevel). length currentLevel))"
    by simp
next
  fix hf :: "'h hashFunction" and currentLevel nextLevel :: "'h list"
  assume "1 < length currentLevel" and "hashLevel hf currentLevel = Inr nextLevel"
  then have "length nextLevel < length currentLevel"
    using hashLevel_length [of hf currentLevel nextLevel] by simp
  then show "((hf, nextLevel), (hf, currentLevel))
      \<in> measure (\<lambda>(hf, currentLevel). length currentLevel)"
    by simp
qed

declare buildLevels.simps [simp del]

definition buildTree :: "'h hashFunction \<Rightarrow> 'h list \<Rightarrow> error + 'h list list" where
  "buildTree hf leaves =
     (case buildLevels hf leaves of
        Inl e \<Rightarrow> Inl e
      | Inr levels \<Rightarrow> Inr (leaves # levels))"

definition generateRoot :: "'h hashFunction \<Rightarrow> 'h list \<Rightarrow> error + 'h" where
  "generateRoot hf leaves =
     (if length leaves = 0 then Inl EmptyLeaves
      else if length leaves = 1 then Inr (leaves ! 0)
      else
        (case buildTree hf (padLeaves leaves) of
           Inl e \<Rightarrow> Inl e
         | Inr tree \<Rightarrow> Inr ((tree ! (length tree - 1)) ! 0)))"

text \<open>
  The result of \<open>generateProof\<close>. An entry of \<open>path\<close> is \<open>tree[level][currentIndex]\<close>;
  a read outside the array gives \<open>undefined\<close> in the source and \<open>None\<close> here.
\<close>

record 'h MerkleProof =
  leaf :: 'h
  path :: "'h option list"
  siblings :: "'h list"
  indices :: "int list"

definition readAt :: "'a list \<Rightarrow> nat \<Rightarrow> 'a option" where
  "readAt xs i = (if i < length xs then Some (xs ! i) else None)"

text \<open>
  The \<open>for\<close> loop of \<open>generateProof\<close> over the levels below the root. A level whose
  sibling position is outside the level adds no entry. The result is
  \<open>(path, siblings, indices)\<close>.
\<close>

fun proofLoop :: "'h list list \<Rightarrow> nat \<Rightarrow> 'h option list \<times> 'h list \<times> int list" where
  "proofLoop [] currentIndex = ([], [], [])"
| "proofLoop [rootLevel] currentIndex = ([], [], [])"
| "proofLoop (lvl # upper) currentIndex =
     (let levelSize = length lvl;
          isRight = (currentIndex mod 2 = 1);
          siblingIndex = (if isRight then currentIndex - 1 else currentIndex + 1);
          (p, s, i) = proofLoop upper (currentIndex div 2)
      in if siblingIndex < levelSize
         then (readAt lvl currentIndex # p, lvl ! siblingIndex # s,
               (if isRight then 1 else 0) # i)
         else (p, s, i))"

text \<open>\<open>leafIndex\<close> is an array index: a natural number.\<close>

definition generateProof :: "'h hashFunction \<Rightarrow> 'h list \<Rightarrow> nat \<Rightarrow> error + 'h MerkleProof" where
  "generateProof hf leaves leafIndex =
     (if leafIndex \<ge> length leaves then Inl IndexOutOfBounds
      else
        (case buildTree hf (padLeaves leaves) of
           Inl e \<Rightarrow> Inl e
         | Inr tree \<Rightarrow>
             (let (p, s, i) = proofLoop tree leafIndex
              in Inr \<lparr>leaf = leaves ! leafIndex, path = p, siblings = s, indices = i\<rparr>)))"

text \<open>
  The loop of \<open>verifyProof\<close> runs over \<open>proof\<close>; an index that \<open>indices\<close> does not
  have reads as \<open>undefined\<close>, which is not \<open>1\<close>.
\<close>

fun verifyLoop :: "'h hashFunction \<Rightarrow> 'h \<Rightarrow> 'h list \<Rightarrow> int list \<Rightarrow> error + 'h" where
  "verifyLoop hf currentHash [] is = Inr currentHash"
| "verifyLoop hf currentHash (sibling # rest) is =
     (let isRight = (case is of [] \<Rightarrow> False | i # _ \<Rightarrow> i = 1) in
      case (if isRight then hf sibling currentHash else hf currentHash sibling) of
        Inl e \<Rightarrow> Inl e
      | Inr h \<Rightarrow> verifyLoop hf h rest (tl is))"

definition verifyProof :: "'h hashFunction \<Rightarrow> 'h \<Rightarrow> 'h list \<Rightarrow> 'h \<Rightarrow> int list \<Rightarrow> error + bool" where
  "verifyProof hf leaf' proof' root' indices' =
     (if length proof' \<noteq> length indices' then Inr False
      else
        (case verifyLoop hf leaf' proof' indices' of
           Inl e \<Rightarrow> Inl e
         | Inr currentHash \<Rightarrow> Inr (currentHash = root')))"

section \<open>Credit score engine\<close>

text \<open>
  A \<open>CreditEvent\<close> of the source has the fields \<open>type\<close>, \<open>timestamp\<close>, \<open>value\<close>,
  \<open>metadata\<close> and \<open>weight\<close>; the fields carry the prefix \<open>ev_\<close> here. A JavaScript
  \<open>number\<close> is modelled as a rational: arithmetic is exact, and the rounding, the
  infinities and the NaN of IEEE doubles are outside the model. The model agrees with
  the source where double arithmetic is exact, as it is on the values of the
  scenarios evaluated below, and on order properties that rounding preserves. It
  does not agree where a sum overflows: on doubles the sum becomes \<open>Infinity\<close>, the
  quotient of two such sums is \<open>NaN\<close>, and \<open>Math.min\<close> and \<open>Math.max\<close> return \<open>NaN\<close>
  when an argument is \<open>NaN\<close>. The \<open>metadata\<close> bag is
  read at four keys only (\<open>action\<close>, \<open>onTime\<close>, \<open>duration\<close>, \<open>riskType\<close>); each is a
  field with \<open>None\<close> for a key that is absent.
\<close>

datatype eventType = Transaction | Staking | Lending | Attestation | Risk

record Metadata =
  md_action :: "string option"
  md_onTime :: "bool option"
  md_duration :: "rat option"
  md_riskType :: "string option"

record CreditEvent =
  ev_type :: eventType
  ev_timestamp :: rat
  ev_value :: rat
  ev_metadata :: Metadata
  ev_weight :: rat

record ScoreComponent =
  name :: string
  score :: rat
  weight :: rat
  reason :: string
  maxScore :: rat

text \<open>The private fields \<open>maxScore\<close> and \<open>weights\<close> of the engine.\<close>

definition engineMaxScore :: rat where
  "engineMaxScore = 1000"

definition weights_repayment :: rat where "weights_repayment = 40 / 100"
definition weights_staking :: rat where "weights_staking = 25 / 100"
definition weights_activity :: rat where "weights_activity = 20 / 100"
definition weights_attestations :: rat where "weights_attestations = 10 / 100"
definition weights_risk :: rat where "weights_risk = 5 / 100"

subsection \<open>Repayment\<close>

text \<open>
  The loop of \<open>computeRepaymentScore\<close> over the lending events, on the state
  \<open>(totalBorrowed, totalRepaid, onTimePayments, latePayments)\<close>. \<open>metadata.onTime\<close> is
  tested for truthiness: an absent key counts as late.
\<close>

fun repaymentLoop :: "CreditEvent list \<Rightarrow> rat \<times> rat \<times> nat \<times> nat \<Rightarrow> rat \<times> rat \<times> nat \<times> nat" where
  "repaymentLoop [] acc = acc"
| "repaymentLoop (event # rest) (totalBorrowed, totalRepaid, onTimePayments, latePayments) =
     repaymentLoop rest
       (if md_action (ev_metadata event) = Some ''borrow'' then
          (totalBorrowed + ev_value event, totalRepaid, onTimePayments, latePayments)
        else if md_action (ev_metadata event) = Some ''repay'' then
          (if md_onTime (ev_metadata event) = Some True then
             (totalBorrowed, totalRepaid + ev_value event, onTimePayments + 1, latePayments)
           else
             (totalBorrowed, totalRepaid + ev_value event, onTimePayments, latePayments + 1))
        else (totalBorrowed, totalRepaid, onTimePayments, latePayments))"

definition computeRepaymentScore :: "CreditEvent list \<Rightarrow> rat" where
  "computeRepaymentScore events =
     (let lendingEvents = filter (\<lambda>e. ev_type e = Lending) events in
      if length lendingEvents = 0 then 0
      else
        (let (totalBorrowed, totalRepaid, onTimePayments, latePayments) =
               repaymentLoop lendingEvents (0, 0, 0, 0)
         in if totalBorrowed = 0 then 0
            else
              (let repaymentRatio = totalRepaid / totalBorrowed;
                   score0 = min (repaymentRatio * 300) 300;
                   totalPayments = onTimePayments + latePayments;
                   score1 = (if totalPayments > 0
                             then score0 + (of_nat onTimePayments / of_nat totalPayments) * 100
                             else score0)
               in min score1 400)))"

subsection \<open>Staking\<close>

text \<open>
  The loop of \<open>computeStakingScore\<close> on the state
  \<open>(totalStaked, averageDuration, longTermStakes)\<close>; \<open>metadata.duration || 0\<close> reads an
  absent duration as 0.
\<close>

fun stakingLoop :: "CreditEvent list \<Rightarrow> rat \<times> rat \<times> nat \<Rightarrow> rat \<times> rat \<times> nat" where
  "stakingLoop [] acc = acc"
| "stakingLoop (event # rest) (totalStaked, averageDuration, longTermStakes) =
     stakingLoop rest
       (if md_action (ev_metadata event) = Some ''stake'' then
          (let duration = (case md_duration (ev_metadata event) of None \<Rightarrow> 0 | Some d \<Rightarrow> d)
           in (totalStaked + ev_value event, averageDuration + duration,
               if duration \<ge> 180 * 24 * 60 * 60 then longTermStakes + 1 else longTermStakes))
        else (totalStaked, averageDuration, longTermStakes))"

definition computeStakingScore :: "CreditEvent list \<Rightarrow> rat" where
  "computeStakingScore events =
     (let stakingEvents = filter (\<lambda>e. ev_type e = Staking) events in
      if length stakingEvents = 0 then 0
      else
        (let (totalStaked, durationSum, longTermStakes) = stakingLoop stakingEvents (0, 0, 0)
         in if length stakingEvents = 0 then 0
            else
              (let averageDuration = durationSum / of_nat (length stakingEvents);
                   amountScore = min ((totalStaked / 10) * 150) 150;
                   durationScore = min ((averageDuration / (365 * 24 * 60 * 60)) * 100) 100
               in amountScore + durationScore)))"

subsection \<open>Activity\<close>

text \<open>
  \<open>computeActivityScore\<close> reads the clock: \<open>Date.now()\<close>, in milliseconds, is the
  parameter \<open>dateNow\<close>. The loop runs on the state
  \<open>(recentActivity, mediumActivity, totalVolume)\<close>.
\<close>

fun activityLoop :: "rat \<Rightarrow> rat \<Rightarrow> CreditEvent list \<Rightarrow> nat \<times> nat \<times> rat \<Rightarrow> nat \<times> nat \<times> rat" where
  "activityLoop thirtyDaysAgo ninetyDaysAgo [] acc = acc"
| "activityLoop thirtyDaysAgo ninetyDaysAgo (event # rest) (recentActivity, mediumActivity, totalVolume) =
     activityLoop thirtyDaysAgo ninetyDaysAgo rest
       (if ev_timestamp event \<ge> thirtyDaysAgo then
          (recentActivity + 1, mediumActivity, totalVolume + ev_value event)
        else if ev_timestamp event \<ge> ninetyDaysAgo then
          (recentActivity, mediumActivity + 1, totalVolume + ev_value event)
        else (recentActivity, mediumActivity, totalVolume + ev_value event))"

definition computeActivityScore :: "int \<Rightarrow> CreditEvent list \<Rightarrow> rat" where
  "computeActivityScore dateNow events =
     (let transactionEvents = filter (\<lambda>e. ev_type e = Transaction) events in
      if length transactionEvents = 0 then 0
      else
        (let now = of_int (dateNow div 1000);
             thirtyDaysAgo = now - (30 * 24 * 60 * 60);
             ninetyDaysAgo = now - (90 * 24 * 60 * 60);
             (recentActivity, mediumActivity, totalVolume) =
               activityLoop thirtyDaysAgo ninetyDaysAgo transactionEvents (0, 0, 0);
             frequencyScore = min (of_nat recentActivity * 10 + of_nat mediumActivity * 5) 100;
             volumeScore = min ((totalVolume / 100) * 100) 100
         in frequencyScore + volumeScore))"

subsection \<open>Attestations and risk\<close>

definition computeAttestationScore :: "CreditEvent list \<Rightarrow> rat" where
  "computeAttestationScore events =
     (let attestationEvents = filter (\<lambda>e. ev_type e = Attestation) events
      in min (of_nat (length attestationEvents) * 20) 100)"

fun riskLoop :: "CreditEvent list \<Rightarrow> rat \<Rightarrow> rat" where
  "riskLoop [] riskScore = riskScore"
| "riskLoop (event # rest) riskScore =
     riskLoop rest
       (if md_riskType (ev_metadata event) = Some ''late_payment'' then riskScore + 20
        else if md_riskType (ev_metadata event) = Some ''high_leverage'' then riskScore + 15
        else if md_riskType (ev_metadata event) = Some ''suspicious_activity'' then riskScore + 25
        else riskScore)"

definition computeRiskScore :: "CreditEvent list \<Rightarrow> rat" where
  "computeRiskScore events =
     (let riskEvents = filter (\<lambda>e. ev_type e = Risk) events
      in min (riskLoop riskEvents 0) 50)"

subsection \<open>Reasons\<close>

definition getRepaymentReason :: "rat \<Rightarrow> string" where
  "getRepaymentReason s =
     (if s \<ge> 350 then ''Excellent repayment history with consistent on-time payments''
      else if s \<ge> 250 then ''Good repayment history with occasional late payments''
      else if s \<ge> 150 then ''Fair repayment history with some late payments''
      else ''Poor repayment history with frequent late payments'')"

definition getStakingReason :: "rat \<Rightarrow> string" where
  "getStakingReason s =
     (if s \<ge> 200 then ''Strong staking behavior with long-term commitments''
      else if s \<ge> 150 then ''Good staking behavior with moderate duration''
      else if s \<ge> 100 then ''Fair staking behavior with short-term stakes''
      else ''Limited staking activity'')"

definition getActivityReason :: "rat \<Rightarrow> string" where
  "getActivityReason s =
     (if s \<ge> 150 then ''High transaction activity with significant volume''
      else if s \<ge> 100 then ''Moderate transaction activity''
      else if s \<ge> 50 then ''Low transaction activity''
      else ''Minimal transaction activity'')"

definition getAttestationReason :: "rat \<Rightarrow> string" where
  "getAttestationReason s =
     (if s \<ge> 80 then ''Strong social attestations from trusted sources''
      else if s \<ge> 60 then ''Good social attestations''
      else if s \<ge> 40 then ''Some social attestations''
      else ''Limited social attestations'')"

definition getRiskReason :: "rat \<Rightarrow> string" where
  "getRiskReason s =
     (if s \<le> 10 then ''Low risk profile with clean history''
      else if s \<le> 25 then ''Moderate risk with some concerns''
      else if s \<le> 40 then ''High risk with multiple red flags''
      else ''Very high risk profile'')"

subsection \<open>Components and total\<close>

definition computeComponents :: "int \<Rightarrow> CreditEvent list \<Rightarrow> ScoreComponent list" where
  "computeComponents dateNow events =
     (let repaymentScore = computeRepaymentScore events;
          stakingScore = computeStakingScore events;
          activityScore = computeActivityScore dateNow events;
          attestationScore = computeAttestationScore events;
          riskScore = computeRiskScore events
      in [\<lparr>name = ''Repayment History'', score = repaymentScore,
            weight = weights_repayment, reason = getRepaymentReason repaymentScore,
            maxScore = 400\<rparr>,
          \<lparr>name = ''Staking Behavior'', score = stakingScore,
            weight = weights_staking, reason = getStakingReason stakingScore,
            maxScore = 250\<rparr>,
          \<lparr>name = ''Transaction Activity'', score = activityScore,
            weight = weights_activity, reason = getActivityReason activityScore,
            maxScore = 200\<rparr>,
          \<lparr>name = ''Social Attestations'', score = attestationScore,
            weight = weights_attestations, reason = getAttestationReason attestationScore,
            maxScore = 100\<rparr>,
          \<lparr>name = ''Risk Assessment'', score = riskScore,
            weight = weights_risk, reason = getRiskReason riskScore,
            maxScore = 50\<rparr>])"

fun totalLoop :: "ScoreComponent list \<Rightarrow> rat \<Rightarrow> rat" where
  "totalLoop [] totalScore = totalScore"
| "totalLoop (component # rest) totalScore =
     totalLoop rest
       (if name component = ''Risk Assessment'' then totalScore - score component
        else totalScore + score component)"

definition calculateTotalScore :: "ScoreComponent list \<Rightarrow> rat" where
  "calculateTotalScore components = max 0 (min (totalLoop components 0) engineMaxScore)"

section \<open>Properties of the Merkle engine\<close>

lemma buildLevels_done: "length xs \<le> 1 \<Longrightarrow> buildLevels hf xs = Inr []"
  by (simp add: buildLevels.simps)

lemma buildLevels_step:
  "1 < length xs \<Longrightarrow> buildLevels hf xs =
     (case hashLevel hf xs of
        Inl e \<Rightarrow> Inl e
      | Inr nextLevel \<Rightarrow>
          (case buildLevels hf nextLevel of
             Inl e \<Rightarrow> Inl e
           | Inr tree \<Rightarrow> Inr (nextLevel # tree)))"
  by (subst buildLevels.simps) simp

lemmas merkle_defs = generateRoot_def generateProof_def padLeaves_def buildTree_def
  buildLevels_done buildLevels_step verifyProof_def readAt_def

text \<open>
  C9: with an empty list of siblings and an empty list of indices, \<open>verifyProof\<close>
  returns true exactly when the leaf equals the root; no hash is computed.
\<close>

theorem verifyProof_empty:
  "verifyProof hf l [] r [] = Inr (l = r)"
  by (simp add: verifyProof_def)

text \<open>
  C8: when \<open>siblings\<close> and \<open>indices\<close> differ in length, \<open>verifyProof\<close> returns false and
  raises nothing, whatever the hash does on the values it is given.
\<close>

theorem verifyProof_length_mismatch:
  "length ss \<noteq> length is \<Longrightarrow> verifyProof hf l ss r is = Inr False"
  by (simp add: verifyProof_def)

theorem verifyProof_length_mismatch_witness:
  "length [1::nat] \<noteq> length ([]::int list) \<and>
   verifyProof (\<lambda>left right. Inl HashError) (0::nat) [1] 0 [] = Inr False"
  using verifyProof_length_mismatch [of "[1::nat]" "[]::int list" "\<lambda>left right. Inl HashError" 0 0]
  by simp

text \<open>
  C7: the root of three leaves is the root of the four leaves that repeat the third:
  an odd-length list is padded with its last leaf before the tree is built.
\<close>

theorem generateRoot_odd_padding:
  "generateRoot hf [a, b, c] = generateRoot hf [a, b, c, c]"
  by (simp add: generateRoot_def padLeaves_def)

text \<open>
  C6: for three leaves, whenever the root is generated, the proof for index 0 is
  generated as well and verifies against that root.
\<close>

theorem three_leaf_proof_verifies:
  assumes "generateRoot hf [h1, h2, h3] = Inr r"
  shows "\<exists>p. generateProof hf [h1, h2, h3] 0 = Inr p \<and>
     verifyProof hf h1 (siblings p) r (indices p) = Inr True"
proof -
  from assms obtain a b where h: "hf h1 h2 = Inr a" "hf h3 h3 = Inr b" "hf a b = Inr r"
    by (auto simp: merkle_defs split: sum.splits)
  then have gp: "generateProof hf [h1, h2, h3] 0 =
      Inr \<lparr>leaf = h1, path = [Some h1, Some a], siblings = [h2, b], indices = [0, 0]\<rparr>"
    by (simp add: merkle_defs)
  from h have "verifyProof hf h1 [h2, b] r [0, 0] = Inr True"
    by (simp add: verifyProof_def)
  with gp show ?thesis by simp
qed

theorem three_leaf_proof_verifies_witness:
  "generateRoot (pureHash Pair) [Atom 1, Atom 2, Atom 3] =
     Inr (Pair (Pair (Atom 1) (Atom 2)) (Pair (Atom 3) (Atom 3))) \<and>
   (\<exists>p. generateProof (pureHash Pair) [Atom 1, Atom 2, Atom 3] 0 = Inr p \<and>
      verifyProof (pureHash Pair) (Atom 1) (siblings p)
        (Pair (Pair (Atom 1) (Atom 2)) (Pair (Atom 3) (Atom 3))) (indices p) = Inr True)"
proof -
  have r: "generateRoot (pureHash Pair) [Atom 1, Atom 2, Atom 3] =
     Inr (Pair (Pair (Atom 1) (Atom 2)) (Pair (Atom 3) (Atom 3)))"
    by (simp add: merkle_defs pureHash_def)
  show ?thesis using r three_leaf_proof_verifies [OF r] by simp
qed

text \<open>
  C1 fails on the code. The engine always produces five components, hence five
  leaves, padded to six; the second level has three nodes, and the proof for the
  last leaf gets no entry there, where \<open>buildTree\<close> hashed the node with itself. With
  any hash that raises nothing, the proof and the root are as below and verification
  succeeds only on a collision of the hash; with the hash without collisions it
  returns false.
\<close>

theorem five_leaf_last_proof_rejected:
  "generateProof (pureHash H) [l1, l2, l3, l4, l5] 4 =
     Inr \<lparr>leaf = l5, path = [Some l5, Some (H (H l5 l5) (H l5 l5))],
          siblings = [l5, H (H l1 l2) (H l3 l4)], indices = [0, 1]\<rparr> \<and>
   generateRoot (pureHash H) [l1, l2, l3, l4, l5] =
     Inr (H (H (H l1 l2) (H l3 l4)) (H (H l5 l5) (H l5 l5))) \<and>
   verifyProof (pureHash H) l5 [l5, H (H l1 l2) (H l3 l4)]
       (H (H (H l1 l2) (H l3 l4)) (H (H l5 l5) (H l5 l5))) [0, 1] =
     Inr (H (H (H l1 l2) (H l3 l4)) (H l5 l5) =
          H (H (H l1 l2) (H l3 l4)) (H (H l5 l5) (H l5 l5))) \<and>
   verifyProof (pureHash Pair) (Atom 5)
       [Atom 5, Pair (Pair (Atom 1) (Atom 2)) (Pair (Atom 3) (Atom 4))]
       (Pair (Pair (Pair (Atom 1) (Atom 2)) (Pair (Atom 3) (Atom 4)))
             (Pair (Pair (Atom 5) (Atom 5)) (Pair (Atom 5) (Atom 5)))) [0, 1] =
     Inr False"
proof -
  have "generateProof (pureHash H) [l1, l2, l3, l4, l5] 4 =
     Inr \<lparr>leaf = l5, path = [Some l5, Some (H (H l5 l5) (H l5 l5))],
          siblings = [l5, H (H l1 l2) (H l3 l4)], indices = [0, 1]\<rparr>"
    by (simp add: merkle_defs pureHash_def)
  moreover have "generateRoot (pureHash H) [l1, l2, l3, l4, l5] =
     Inr (H (H (H l1 l2) (H l3 l4)) (H (H l5 l5) (H l5 l5)))"
    by (simp add: merkle_defs pureHash_def)
  moreover have "verifyProof (pureHash H) l5 [l5, H (H l1 l2) (H l3 l4)]
       (H (H (H l1 l2) (H l3 l4)) (H (H l5 l5) (H l5 l5))) [0, 1] =
     Inr (H (H (H l1 l2) (H l3 l4)) (H l5 l5) =
          H (H (H l1 l2) (H l3 l4)) (H (H l5 l5) (H l5 l5)))"
    by (simp add: verifyProof_def pureHash_def)
  moreover have "verifyProof (pureHash Pair) (Atom 5)
       [Atom 5, Pair (Pair (Atom 1) (Atom 2)) (Pair (Atom 3) (Atom 4))]
       (Pair (Pair (Pair (Atom 1) (Atom 2)) (Pair (Atom 3) (Atom 4)))
             (Pair (Pair (Atom 5) (Atom 5)) (Pair (Atom 5) (Atom 5)))) [0, 1] =
     Inr False"
    by (simp add: verifyProof_def pureHash_def)
  ultimately show ?thesis by (simp only: simp_thms)
qed

text \<open>
  The same claim fails for a single leaf: \<open>generateRoot\<close> returns the leaf itself,
  while \<open>generateProof\<close> pads the list to two leaves and returns the leaf as its own
  sibling, so verification compares the hash of the pair with the leaf.
\<close>

lemma single_leaf_proof_rejected:
  "generateProof (pureHash H) [x] 0 =
     Inr \<lparr>leaf = x, path = [Some x], siblings = [x], indices = [0]\<rparr> \<and>
   generateRoot (pureHash H) [x] = Inr x \<and>
   verifyProof (pureHash H) x [x] x [0] = Inr (H x x = x)"
  by (simp add: merkle_defs pureHash_def)

text \<open>
  Where the round trip does hold: when the padded list has a power of two as its
  length, and at least two leaves, no level is odd, every level adds its entry to
  the proof, and each proof verifies against the root whenever the root is generated.
\<close>

lemma hashLevel_nth:
  "hashLevel hf xs = Inr ys \<Longrightarrow> 2 * j + 1 < length xs \<Longrightarrow>
   hf (xs ! (2 * j)) (xs ! (2 * j + 1)) = Inr (ys ! j)"
proof (induction hf xs arbitrary: ys j rule: hashLevel.induct)
  case (1 hf)
  then show ?case by simp
next
  case (2 hf x)
  then show ?case by simp
next
  case (3 hf x y rest)
  from "3.prems"(1) obtain h hs where h: "hf x y = Inr h" and hs: "hashLevel hf rest = Inr hs"
    and ys: "ys = h # hs"
    by (auto split: sum.splits)
  show ?case
  proof (cases j)
    case 0
    with h ys show ?thesis by simp
  next
    case (Suc j')
    with "3.prems"(2) have "2 * j' + 1 < length rest" by simp
    from "3.IH" [OF h hs this] Suc ys show ?thesis by simp
  qed
qed

lemma proof_verifies_full_levels:
  "length lvl = 2 ^ k \<Longrightarrow> idx < length lvl \<Longrightarrow> buildLevels hf lvl = Inr levels \<Longrightarrow>
   proofLoop (lvl # levels) idx = (p, s, i) \<Longrightarrow>
   length s = length i \<and> verifyLoop hf (lvl ! idx) s i = Inr (last (lvl # levels) ! 0)"
proof (induction k arbitrary: lvl idx levels p s i)
  case 0
  then have "levels = []" "idx = 0" by (simp_all add: buildLevels_done)
  with 0 show ?case by auto
next
  case (Suc k)
  have "(1::nat) \<le> 2 ^ k" by simp
  then have "(1::nat) < 2 * 2 ^ k" by linarith
  with Suc.prems(1) have len: "1 < length lvl" "even (length lvl)" by simp_all
  with Suc.prems(3) obtain nxt t where nxt: "hashLevel hf lvl = Inr nxt"
    and t: "buildLevels hf nxt = Inr t" and levels: "levels = nxt # t"
    by (auto simp: buildLevels_step split: sum.splits)
  have lnxt: "length nxt = 2 ^ k"
    using hashLevel_length [OF nxt] Suc.prems(1) by simp
  have idx2: "idx div 2 < length nxt"
    using Suc.prems(1,2) lnxt by simp
  obtain p' s' i' where rest: "proofLoop (nxt # t) (idx div 2) = (p', s', i')"
    using prod_cases3 by blast
  from Suc.IH [OF lnxt idx2 t rest]
  have ih: "length s' = length i'"
    "verifyLoop hf (nxt ! (idx div 2)) s' i' = Inr (last (nxt # t) ! 0)"
    by simp_all
  have pair: "2 * (idx div 2) + 1 < length lvl"
    using Suc.prems(2) len(2) by presburger
  note step = hashLevel_nth [OF nxt pair]
  show ?case
  proof (cases "idx mod 2 = 1")
    case True
    then have e: "2 * (idx div 2) + 1 = idx" "2 * (idx div 2) = idx - 1" by presburger+
    from True Suc.prems(2,4) rest levels
    have "s = lvl ! (idx - 1) # s'" "i = 1 # i'"
      by (auto simp: Let_def split: if_splits)
    with step ih e levels show ?thesis by simp
  next
    case False
    then have e: "2 * (idx div 2) = idx" "2 * (idx div 2) + 1 = idx + 1" by presburger+
    from pair e have "idx + 1 < length lvl" by simp
    with False Suc.prems(4) rest levels
    have "s = lvl ! (idx + 1) # s'" "i = 0 # i'"
      by (auto simp: Let_def split: if_splits)
    with step ih e levels show ?thesis by simp
  qed
qed

lemma padLeaves_nth: "j < length leaves \<Longrightarrow> padLeaves leaves ! j = leaves ! j"
  by (simp add: padLeaves_def nth_append)

lemma roundtrip_power_of_two:
  assumes "2 \<le> length leaves" and "length (padLeaves leaves) = 2 ^ k"
    and "leafIndex < length leaves" and "generateRoot hf leaves = Inr r"
  shows "\<exists>p. generateProof hf leaves leafIndex = Inr p \<and>
     verifyProof hf (leaves ! leafIndex) (siblings p) r (indices p) = Inr True"
proof -
  from assms(1,4) obtain levels where lv: "buildLevels hf (padLeaves leaves) = Inr levels"
    and r: "r = last (padLeaves leaves # levels) ! 0"
    by (auto simp: generateRoot_def buildTree_def last_conv_nth split: sum.splits if_splits)
  obtain p s i where pl: "proofLoop (padLeaves leaves # levels) leafIndex = (p, s, i)"
    using prod_cases3 by blast
  have idx: "leafIndex < length (padLeaves leaves)"
    using assms(3) by (simp add: padLeaves_def)
  from proof_verifies_full_levels [OF assms(2) idx lv pl] padLeaves_nth [OF assms(3)] r
  have v: "length s = length i" "verifyLoop hf (leaves ! leafIndex) s i = Inr r"
    by simp_all
  have "generateProof hf leaves leafIndex =
      Inr \<lparr>leaf = leaves ! leafIndex, path = p, siblings = s, indices = i\<rparr>"
    using assms(3) lv pl by (simp add: generateProof_def buildTree_def)
  moreover have "verifyProof hf (leaves ! leafIndex) s r i = Inr True"
    using v by (simp add: verifyProof_def)
  ultimately show ?thesis by simp
qed

section \<open>Properties of the score engine\<close>

lemmas score_defs = computeRepaymentScore_def computeStakingScore_def
  computeActivityScore_def computeAttestationScore_def computeRiskScore_def

lemma computeRepaymentScore_le: "computeRepaymentScore es \<le> 400"
proof -
  obtain tb tr ot lt where L:
    "repaymentLoop (filter (\<lambda>e. ev_type e = Lending) es) (0, 0, 0, 0) = (tb, tr, ot, lt)"
    using prod_cases4 by blast
  have m: "\<And>x::rat. min x 400 \<le> 400" by (rule min.cobounded2)
  show ?thesis
    unfolding computeRepaymentScore_def Let_def L prod.case
    by (simp only: m split: if_split) simp
qed

lemma min_add_le: "min a (x::rat) + min b y \<le> x + y"
  by (rule add_mono [OF min.cobounded2 min.cobounded2])

lemma computeStakingScore_le: "computeStakingScore es \<le> 250"
proof -
  obtain ts ds lg where L:
    "stakingLoop (filter (\<lambda>e. ev_type e = Staking) es) (0, 0, 0) = (ts, ds, lg)"
    using prod_cases3 by blast
  have m: "\<And>a b::rat. min a 150 + min b 100 \<le> 250"
    using min_add_le [of _ 150 _ 100] by simp
  show ?thesis
    unfolding computeStakingScore_def Let_def L prod.case
    by (simp only: m split: if_split) simp
qed

lemma computeActivityScore_le: "computeActivityScore dateNow es \<le> 200"
proof -
  obtain ra ma tv where L:
    "activityLoop (of_int (dateNow div 1000) - 30 * 24 * 60 * 60)
       (of_int (dateNow div 1000) - 90 * 24 * 60 * 60)
       (filter (\<lambda>e. ev_type e = Transaction) es) (0, 0, 0) = (ra, ma, tv)"
    using prod_cases3 by blast
  have m: "\<And>a b::rat. min a 100 + min b 100 \<le> 200"
    using min_add_le [of _ 100 _ 100] by simp
  show ?thesis
    unfolding computeActivityScore_def Let_def L prod.case
    by (simp only: m split: if_split) simp
qed

lemma computeAttestationScore_le: "computeAttestationScore es \<le> 100"
  unfolding computeAttestationScore_def Let_def by (rule min.cobounded2)

lemma computeRiskScore_le: "computeRiskScore es \<le> 50"
  unfolding computeRiskScore_def Let_def by (rule min.cobounded2)

text \<open>The loop of \<open>calculateTotalScore\<close> on the five components: risk is subtracted.\<close>

lemma totalLoop_components:
  "totalLoop (computeComponents dateNow es) 0 =
     computeRepaymentScore es + computeStakingScore es + computeActivityScore dateNow es
       + computeAttestationScore es - computeRiskScore es"
  by (simp add: computeComponents_def Let_def)

lemma maxScore_components:
  "map maxScore (computeComponents dateNow es) = [400, 250, 200, 100, 50]"
  by (simp add: computeComponents_def Let_def)

lemma calculateTotalScore_range:
  "0 \<le> calculateTotalScore cs \<and> calculateTotalScore cs \<le> 1000"
  by (simp add: calculateTotalScore_def engineMaxScore_def)

text \<open>
  C2 fails on the code, at an input that leaves exact arithmetic. Take four lending
  events, two with action \<open>borrow\<close> and two with action \<open>repay\<close>, each of value
  \<open>2^1023\<close>, a finite double. In \<open>computeRepaymentScore\<close> both sums overflow to
  \<open>Infinity\<close>, \<open>totalRepaid / totalBorrowed\<close> is \<open>NaN\<close>, and \<open>Math.min(score, 400)\<close>
  returns \<open>NaN\<close>; in \<open>calculateTotalScore\<close> the sum is \<open>NaN\<close> and
  \<open>Math.max(0, Math.min(totalScore, 1000))\<close> returns \<open>NaN\<close>. Neither
  \<open>score \<le> 400\<close> nor \<open>0 \<le> totalScore \<le> 1000\<close> holds of \<open>NaN\<close>. The rational model has
  no such value, so no theorem below is about that input.
\<close>

text \<open>
  What the clamps of the source do establish, in exact arithmetic only: the total
  lies between 0 and 1000, the five components carry the ceilings 400, 250, 200, 100
  and 50, and each score is at most its ceiling.
\<close>

lemma score_bounds_exact_arithmetic:
  "0 \<le> calculateTotalScore (computeComponents dateNow events) \<and>
   calculateTotalScore (computeComponents dateNow events) \<le> 1000 \<and>
   map name (computeComponents dateNow events) =
     [''Repayment History'', ''Staking Behavior'', ''Transaction Activity'',
      ''Social Attestations'', ''Risk Assessment''] \<and>
   map maxScore (computeComponents dateNow events) = [400, 250, 200, 100, 50] \<and>
   list_all (\<lambda>c. score c \<le> maxScore c) (computeComponents dateNow events)"
proof -
  have "list_all (\<lambda>c. score c \<le> maxScore c) (computeComponents dateNow events)"
    using computeRepaymentScore_le [of events] computeStakingScore_le [of events]
      computeActivityScore_le [of dateNow events] computeAttestationScore_le [of events]
      computeRiskScore_le [of events]
    by (simp add: computeComponents_def Let_def)
  moreover have "map name (computeComponents dateNow events) =
     [''Repayment History'', ''Staking Behavior'', ''Transaction Activity'',
      ''Social Attestations'', ''Risk Assessment'']"
    by (simp add: computeComponents_def Let_def)
  ultimately show ?thesis
    using calculateTotalScore_range [of "computeComponents dateNow events"]
      maxScore_components [of dateNow events]
    by simp
qed

text \<open>
  C3 fails on the code: the late repayment of value 0 is a payment, so the on-time
  ratio of the scenario is 1/2 and the bonus is 50.
\<close>

theorem repayment_scenario_not_400:
  "computeRepaymentScore
     [\<lparr>ev_type = Lending, ev_timestamp = 0, ev_value = 1000,
        ev_metadata = \<lparr>md_action = Some ''borrow'', md_onTime = None,
          md_duration = None, md_riskType = None\<rparr>, ev_weight = 1\<rparr>,
      \<lparr>ev_type = Lending, ev_timestamp = 0, ev_value = 1000,
        ev_metadata = \<lparr>md_action = Some ''repay'', md_onTime = Some True,
          md_duration = None, md_riskType = None\<rparr>, ev_weight = 1\<rparr>,
      \<lparr>ev_type = Lending, ev_timestamp = 0, ev_value = 0,
        ev_metadata = \<lparr>md_action = Some ''repay'', md_onTime = Some False,
          md_duration = None, md_riskType = None\<rparr>, ev_weight = 1\<rparr>] \<noteq> 400"
  by (simp add: computeRepaymentScore_def)

text \<open>
  C3 as amended: for three lending events, a borrow of 1000, a repay of 1000 on time
  and a repay of 0 not on time, the repayment score is
  \<open>min (1 * 300) 300 + (1 / 2) * 100 = 350\<close>, whatever the other fields of the events
  hold.
\<close>

theorem repayment_scenario_350:
  "computeRepaymentScore
     [\<lparr>ev_type = Lending, ev_timestamp = t1, ev_value = 1000,
        ev_metadata = \<lparr>md_action = Some ''borrow'', md_onTime = o1,
          md_duration = d1, md_riskType = r1\<rparr>, ev_weight = w1\<rparr>,
      \<lparr>ev_type = Lending, ev_timestamp = t2, ev_value = 1000,
        ev_metadata = \<lparr>md_action = Some ''repay'', md_onTime = Some True,
          md_duration = d2, md_riskType = r2\<rparr>, ev_weight = w2\<rparr>,
      \<lparr>ev_type = Lending, ev_timestamp = t3, ev_value = 0,
        ev_metadata = \<lparr>md_action = Some ''repay'', md_onTime = Some False,
          md_duration = d3, md_riskType = r3\<rparr>, ev_weight = w3\<rparr>] = 350"
  by (simp add: computeRepaymentScore_def)

text \<open>
  C4 fails on the code: \<open>computeActivityScore\<close> reads the clock. One transaction of
  timestamp 1700000000 counts as recent when scored at that moment and counts for
  nothing when scored 10000000 seconds later, so the same events give the activity
  scores 10 and 0 and the totals 10 and 0.
\<close>

theorem score_depends_on_clock:
  "(let tx = \<lparr>ev_type = Transaction, ev_timestamp = 1700000000, ev_value = 0,
               ev_metadata = \<lparr>md_action = None, md_onTime = None, md_duration = None,
                 md_riskType = None\<rparr>, ev_weight = 1\<rparr>
    in computeActivityScore 1700000000000 [tx] = 10 \<and>
       computeActivityScore 1710000000000 [tx] = 0 \<and>
       calculateTotalScore (computeComponents 1700000000000 [tx]) = 10 \<and>
       calculateTotalScore (computeComponents 1710000000000 [tx]) = 0)"
  unfolding Let_def
  by (simp add: calculateTotalScore_def totalLoop_components score_defs engineMaxScore_def)

text \<open>
  Events of a category other than risk decide the repayment, staking, activity and
  attestation scores; two lists with the same such events agree on them.
\<close>

lemma filter_type_nonrisk:
  "t \<noteq> Risk \<Longrightarrow>
   filter (\<lambda>e. ev_type e = t) (filter (\<lambda>e. ev_type e \<noteq> Risk) es) =
   filter (\<lambda>e. ev_type e = t) es"
  by (induction es) auto

lemma filter_type_cong:
  assumes "filter (\<lambda>e. ev_type e \<noteq> Risk) es' = filter (\<lambda>e. ev_type e \<noteq> Risk) es"
    and "t \<noteq> Risk"
  shows "filter (\<lambda>e. ev_type e = t) es' = filter (\<lambda>e. ev_type e = t) es"
  using filter_type_nonrisk [OF assms(2), of es'] filter_type_nonrisk [OF assms(2), of es] assms(1)
  by simp

text \<open>The risk loop only adds: more risk events never give a smaller sum.\<close>

lemma riskLoop_ge: "a \<le> b \<Longrightarrow> a \<le> riskLoop es b"
proof (induction es arbitrary: b)
  case Nil
  then show ?case by simp
next
  case (Cons e es)
  show ?case
    by (simp only: riskLoop.simps) (rule Cons.IH, use Cons.prems in auto)
qed

lemma riskLoop_subseq:
  "subseq xs ys \<Longrightarrow> a \<le> b \<Longrightarrow> riskLoop xs a \<le> riskLoop ys b"
proof (induction xs ys arbitrary: a b rule: list_emb.induct)
  case (list_emb_Nil ys)
  then show ?case by (simp add: riskLoop_ge)
next
  case (list_emb_Cons xs ys y)
  show ?case
    by (simp only: riskLoop.simps) (rule list_emb_Cons.IH, use list_emb_Cons.prems in auto)
next
  case (list_emb_Cons2 x y xs ys)
  then have xy: "x = y" by simp
  show ?case
    unfolding xy
    by (simp only: riskLoop.simps) (rule list_emb_Cons2.IH, use list_emb_Cons2.prems in auto)
qed

lemma computeRiskScore_subseq:
  assumes "subseq (filter (\<lambda>e. ev_type e = Risk) es) (filter (\<lambda>e. ev_type e = Risk) es')"
  shows "computeRiskScore es \<le> computeRiskScore es'"
  unfolding computeRiskScore_def Let_def
  using riskLoop_subseq [OF assms, of 0 0] by (simp add: min_le_iff_disj)

text \<open>
  C5: when \<open>events'\<close> has the events of \<open>events\<close> and further risk events, anywhere in
  the list (the events of other categories are the same, in the same order, and the
  risk events of \<open>events\<close> are a subsequence of those of \<open>events'\<close>), the total score
  of \<open>events'\<close> is at most that of \<open>events\<close>, at the same reading of the clock.
\<close>

theorem risk_events_never_increase_total:
  assumes "filter (\<lambda>e. ev_type e \<noteq> Risk) events' = filter (\<lambda>e. ev_type e \<noteq> Risk) events"
    and "subseq (filter (\<lambda>e. ev_type e = Risk) events) (filter (\<lambda>e. ev_type e = Risk) events')"
  shows "calculateTotalScore (computeComponents dateNow events')
       \<le> calculateTotalScore (computeComponents dateNow events)"
proof -
  have rep: "computeRepaymentScore events' = computeRepaymentScore events"
    unfolding computeRepaymentScore_def using filter_type_cong [OF assms(1), of Lending] by simp
  have stk: "computeStakingScore events' = computeStakingScore events"
    unfolding computeStakingScore_def using filter_type_cong [OF assms(1), of Staking] by simp
  have act: "computeActivityScore dateNow events' = computeActivityScore dateNow events"
    unfolding computeActivityScore_def using filter_type_cong [OF assms(1), of Transaction] by simp
  have att: "computeAttestationScore events' = computeAttestationScore events"
    unfolding computeAttestationScore_def using filter_type_cong [OF assms(1), of Attestation] by simp
  have risk: "computeRiskScore events \<le> computeRiskScore events'"
    by (rule computeRiskScore_subseq [OF assms(2)])
  have "totalLoop (computeComponents dateNow events') 0
      \<le> totalLoop (computeComponents dateNow events) 0"
    unfolding totalLoop_components rep stk act att using risk by simp
  then show ?thesis
    unfolding calculateTotalScore_def by (intro max.mono min.mono order_refl)
qed

theorem risk_events_never_increase_total_witness:
  "(let a = \<lparr>ev_type = Attestation, ev_timestamp = 0, ev_value = 0,
              ev_metadata = \<lparr>md_action = None, md_onTime = None, md_duration = None,
                md_riskType = None\<rparr>, ev_weight = 1\<rparr>;
        r = \<lparr>ev_type = Risk, ev_timestamp = 0, ev_value = 0,
              ev_metadata = \<lparr>md_action = None, md_onTime = None, md_duration = None,
                md_riskType = Some ''high_leverage''\<rparr>, ev_weight = 1\<rparr>
    in filter (\<lambda>e. ev_type e \<noteq> Risk) [r, a] = filter (\<lambda>e. ev_type e \<noteq> Risk) [a] \<and>
       subseq (filter (\<lambda>e. ev_type e = Risk) [a]) (filter (\<lambda>e. ev_type e = Risk) [r, a]) \<and>
       calculateTotalScore (computeComponents 0 [r, a]) = 5 \<and>
       calculateTotalScore (computeComponents 0 [a]) = 20 \<and>
       calculateTotalScore (computeComponents 0 [r, a])
         \<le> calculateTotalScore (computeComponents 0 [a]))"
proof -
  let ?a = "\<lparr>ev_type = Attestation, ev_timestamp = 0, ev_value = 0,
        ev_metadata = \<lparr>md_action = None, md_onTime = None, md_duration = None,
          md_riskType = None\<rparr>, ev_weight = 1\<rparr>"
  let ?r = "\<lparr>ev_type = Risk, ev_timestamp = 0, ev_value = 0,
        ev_metadata = \<lparr>md_action = None, md_onTime = None, md_duration = None,
          md_riskType = Some ''high_leverage''\<rparr>, ev_weight = 1\<rparr>"
  have h1: "filter (\<lambda>e. ev_type e \<noteq> Risk) [?r, ?a] = filter (\<lambda>e. ev_type e \<noteq> Risk) [?a]"
    by simp
  have h2: "subseq (filter (\<lambda>e. ev_type e = Risk) [?a]) (filter (\<lambda>e. ev_type e = Risk) [?r, ?a])"
    by simp
  have v1: "calculateTotalScore (computeComponents 0 [?r, ?a]) = 5"
    by (simp add: calculateTotalScore_def totalLoop_components score_defs engineMaxScore_def)
  have v2: "calculateTotalScore (computeComponents 0 [?a]) = 20"
    by (simp add: calculateTotalScore_def totalLoop_components score_defs engineMaxScore_def)
  show ?thesis
    unfolding Let_def
    using h1 h2 v1 v2 risk_events_never_increase_total [OF h1 h2, of 0]
    by (simp only: simp_thms)
qed

text \<open>The staking loop in closed form: sums over the events whose action is \<open>stake\<close>.\<close>

lemma stakingLoop_sums:
  "stakingLoop es (ts, ds, lg) =
     (ts + sum_list (map ev_value (filter (\<lambda>e. md_action (ev_metadata e) = Some ''stake'') es)),
      ds + sum_list (map (\<lambda>e. case md_duration (ev_metadata e) of None \<Rightarrow> 0 | Some d \<Rightarrow> d)
             (filter (\<lambda>e. md_action (ev_metadata e) = Some ''stake'') es)),
      lg + length (filter (\<lambda>e. (case md_duration (ev_metadata e) of None \<Rightarrow> 0 | Some d \<Rightarrow> d)
                              \<ge> 180 * 24 * 60 * 60)
             (filter (\<lambda>e. md_action (ev_metadata e) = Some ''stake'') es)))"
  by (induction es arbitrary: ts ds lg) (simp_all add: Let_def)

text \<open>
  C10: the duration term of the staking score divides the summed durations of the
  events whose action is \<open>stake\<close> by the number of all staking events. So a staking
  event with another action lowers the score: one stake of value 10 held for half a
  year scores 200, and with one more staking event of action \<open>unstake\<close> it scores 175.
\<close>

theorem staking_duration_averaged_over_all_staking_events:
  "computeStakingScore events =
     (let stakingEvents = filter (\<lambda>e. ev_type e = Staking) events;
          stakes = filter (\<lambda>e. md_action (ev_metadata e) = Some ''stake'') stakingEvents;
          durations = map (\<lambda>e. case md_duration (ev_metadata e) of None \<Rightarrow> 0 | Some d \<Rightarrow> d) stakes
      in if stakingEvents = [] then 0
         else min ((sum_list (map ev_value stakes) / 10) * 150) 150
            + min (((sum_list durations / of_nat (length stakingEvents))
                    / (365 * 24 * 60 * 60)) * 100) 100)
   \<and>
   (let s = \<lparr>ev_type = Staking, ev_timestamp = 0, ev_value = 10,
              ev_metadata = \<lparr>md_action = Some ''stake'', md_onTime = None,
                md_duration = Some 15768000, md_riskType = None\<rparr>, ev_weight = 1\<rparr>;
        u = \<lparr>ev_type = Staking, ev_timestamp = 0, ev_value = 0,
              ev_metadata = \<lparr>md_action = Some ''unstake'', md_onTime = None,
                md_duration = None, md_riskType = None\<rparr>, ev_weight = 1\<rparr>
    in computeStakingScore [s] = 200 \<and>
       computeStakingScore [s, u] = 175 \<and>
       computeStakingScore [s, u] < computeStakingScore [s])"
proof -
  have "computeStakingScore events =
     (let stakingEvents = filter (\<lambda>e. ev_type e = Staking) events;
          stakes = filter (\<lambda>e. md_action (ev_metadata e) = Some ''stake'') stakingEvents;
          durations = map (\<lambda>e. case md_duration (ev_metadata e) of None \<Rightarrow> 0 | Some d \<Rightarrow> d) stakes
      in if stakingEvents = [] then 0
         else min ((sum_list (map ev_value stakes) / 10) * 150) 150
            + min (((sum_list durations / of_nat (length stakingEvents))
                    / (365 * 24 * 60 * 60)) * 100) 100)"
    unfolding computeStakingScore_def Let_def stakingLoop_sums prod.case
    by (simp only: length_0_conv if_cancel add_0 split: if_split) simp
  moreover have s1: "computeStakingScore
     [\<lparr>ev_type = Staking, ev_timestamp = 0, ev_value = 10,
        ev_metadata = \<lparr>md_action = Some ''stake'', md_onTime = None,
          md_duration = Some 15768000, md_riskType = None\<rparr>, ev_weight = 1\<rparr>] = 200"
    by (simp add: computeStakingScore_def)
  moreover have s2: "computeStakingScore
     [\<lparr>ev_type = Staking, ev_timestamp = 0, ev_value = 10,
        ev_metadata = \<lparr>md_action = Some ''stake'', md_onTime = None,
          md_duration = Some 15768000, md_riskType = None\<rparr>, ev_weight = 1\<rparr>,
      \<lparr>ev_type = Staking, ev_timestamp = 0, ev_value = 0,
        ev_metadata = \<lparr>md_action = Some ''unstake'', md_onTime = None,
          md_duration = None, md_riskType = None\<rparr>, ev_weight = 1\<rparr>] = 175"
    by (simp add: computeStakingScore_def)
  ultimately show ?thesis
    unfolding Let_def by simp
qed

end
